theory Spec2Isabelle
  imports Main "HOL-Library.Sublist"
begin

section \<open>Strings (the functions of Go's strings package that the sources call)\<close>

text \<open>
  A Go string and a byte slice are both modelled as \<open>string\<close> (a list of bytes); the
  conversions \<open>string(data)\<close> and \<open>[]byte(s)\<close> copy the bytes and are the identity here.
\<close>

fun strings_Join :: "string list \<Rightarrow> string \<Rightarrow> string" where
  "strings_Join [] sep = []"
| "strings_Join [x] sep = x"
| "strings_Join (x # y # ys) sep = x @ sep @ strings_Join (y # ys) sep"

definition strings_HasPrefix :: "string \<Rightarrow> string \<Rightarrow> bool" where
  "strings_HasPrefix s p = prefix p s"

definition strings_TrimPrefix :: "string \<Rightarrow> string \<Rightarrow> string" where
  "strings_TrimPrefix s p = (if strings_HasPrefix s p then drop (length p) s else s)"

fun strings_Contains :: "string \<Rightarrow> string \<Rightarrow> bool" where
  "strings_Contains [] sub = (sub = [])"
| "strings_Contains (c # cs) sub = (prefix sub (c # cs) \<or> strings_Contains cs sub)"

section \<open>Compression registry (compression.go)\<close>

definition compressionIdentity :: string where
  "compressionIdentity = ''identity''"

text \<open>
  A \<open>*compressionPool\<close> is a pointer: \<open>None\<close> is nil, \<open>Some p\<close> a pool with handle \<open>p\<close>.
  The map \<open>nameToPool\<close> is a Go map from names to such pointers.
\<close>

record 'p namedCompressionPools =
  nameToPool :: "string \<rightharpoonup> 'p option"
  commaSeparatedNames :: string

text \<open>
  The loop of \<open>newReadOnlyCompressionPools\<close>: it visits \<open>reversedNames\<close> from the last
  index down to 0, so the recursion runs over the reversed slice; \<open>names\<close> and \<open>seen\<close>
  are the loop's two accumulators.
\<close>

fun collectNames :: "string list \<Rightarrow> string list \<Rightarrow> string set \<Rightarrow> string list" where
  "collectNames [] names seen = names"
| "collectNames (name # rest) names seen =
     (if name \<in> seen then collectNames rest names seen
      else collectNames rest (names @ [name]) (insert name seen))"

definition newReadOnlyCompressionPools ::
  "(string \<rightharpoonup> 'p option) \<Rightarrow> string list \<Rightarrow> 'p namedCompressionPools" where
  "newReadOnlyCompressionPools nameToPool' reversedNames =
     (let names = collectNames (rev reversedNames) [] {}
      in \<lparr>nameToPool = nameToPool', commaSeparatedNames = strings_Join names '',''\<rparr>)"

definition Get :: "'p namedCompressionPools \<Rightarrow> string \<Rightarrow> 'p option" where
  "Get m name =
     (if name = [] \<or> name = compressionIdentity then None
      else (case nameToPool m name of None \<Rightarrow> None | Some p \<Rightarrow> p))"

definition Contains :: "'p namedCompressionPools \<Rightarrow> string \<Rightarrow> bool" where
  "Contains m name = (case nameToPool m name of None \<Rightarrow> False | Some p \<Rightarrow> True)"

definition CommaSeparatedNames :: "'p namedCompressionPools \<Rightarrow> string" where
  "CommaSeparatedNames m = commaSeparatedNames m"

text \<open>
  Modelled from the spec: the registration of a compression name. The option that
  registers a pool and the config it fills are not among the sources; compression.go
  says of them "Client and handler configs keep compression names in registration
  order". Registering a name stores its pool under the name and appends the name.
\<close>

record 'p compressionConfig =
  CompressionPools :: "string \<rightharpoonup> 'p option"
  CompressionNames :: "string list"

definition emptyCompressionConfig :: "'p compressionConfig" where
  "emptyCompressionConfig = \<lparr>CompressionPools = Map.empty, CompressionNames = []\<rparr>"

definition registerCompression ::
  "'p compressionConfig \<Rightarrow> string \<times> 'p option \<Rightarrow> 'p compressionConfig" where
  "registerCompression config reg =
     config\<lparr>CompressionPools := (CompressionPools config)(fst reg \<mapsto> snd reg),
            CompressionNames := CompressionNames config @ [fst reg]\<rparr>"

definition registry :: "(string \<times> 'p option) list \<Rightarrow> 'p namedCompressionPools" where
  "registry regs =
     (let config = foldl registerCompression emptyCompressionConfig regs
      in newReadOnlyCompressionPools (CompressionPools config) (CompressionNames config))"

section \<open>Error codes\<close>

text \<open>
  Modelled from the spec: the \<open>Code\<close> enumeration (code.go is not among the sources).
  The spec lists sixteen values in order, "Canceled, Unknown, InvalidArgument,
  DeadlineExceeded, NotFound, AlreadyExists, PermissionDenied, ResourceExhausted,
  FailedPrecondition, Aborted, OutOfRange, Unimplemented, Internal, Unavailable,
  DataLoss, Unauthenticated", a "total order with defined minimum/maximum". They are
  numbered 1 to 16 in that order, as the gRPC status codes are, so that the zero value of
  an unset \<open>Code\<close> lies below the minimum. A \<open>Code\<close> is an unsigned integer; \<open>nat\<close>
  covers every width.
\<close>

type_synonym Code = nat

definition CodeCanceled :: Code where "CodeCanceled = 1"
definition CodeUnknown :: Code where "CodeUnknown = 2"
definition CodeInvalidArgument :: Code where "CodeInvalidArgument = 3"
definition CodeDeadlineExceeded :: Code where "CodeDeadlineExceeded = 4"
definition CodeNotFound :: Code where "CodeNotFound = 5"
definition CodeAlreadyExists :: Code where "CodeAlreadyExists = 6"
definition CodePermissionDenied :: Code where "CodePermissionDenied = 7"
definition CodeResourceExhausted :: Code where "CodeResourceExhausted = 8"
definition CodeFailedPrecondition :: Code where "CodeFailedPrecondition = 9"
definition CodeAborted :: Code where "CodeAborted = 10"
definition CodeOutOfRange :: Code where "CodeOutOfRange = 11"
definition CodeUnimplemented :: Code where "CodeUnimplemented = 12"
definition CodeInternal :: Code where "CodeInternal = 13"
definition CodeUnavailable :: Code where "CodeUnavailable = 14"
definition CodeDataLoss :: Code where "CodeDataLoss = 15"
definition CodeUnauthenticated :: Code where "CodeUnauthenticated = 16"

definition minCode :: Code where "minCode = CodeCanceled"
definition maxCode :: Code where "maxCode = CodeUnauthenticated"

section \<open>Connect protocol (protocol\_connect.go)\<close>

text \<open>The switch of \<open>connectCodeToHTTP\<close>, its cases in the source's order.\<close>

definition connectCodeToHTTP :: "Code \<Rightarrow> int" where
  "connectCodeToHTTP code =
     (if code = CodeCanceled then 499
      else if code = CodeUnknown then 500
      else if code = CodeInvalidArgument then 400
      else if code = CodeDeadlineExceeded then 504
      else if code = CodeNotFound then 404
      else if code = CodeAlreadyExists then 409
      else if code = CodePermissionDenied then 403
      else if code = CodeResourceExhausted then 429
      else if code = CodeFailedPrecondition then 400
      else if code = CodeAborted then 409
      else if code = CodeOutOfRange then 400
      else if code = CodeUnimplemented then 501
      else if code = CodeInternal then 500
      else if code = CodeUnavailable then 503
      else if code = CodeDataLoss then 500
      else if code = CodeUnauthenticated then 401
      else 500)"

text \<open>
  Modelled from the spec: the names of the JSON codec (codec.go is not among the
  sources), "a bare JSON subtype and the JSON-with-charset subtype"; the spec's example
  response type "application/json; charset=utf-8" fixes the second.
\<close>

definition codecNameJSON :: string where
  "codecNameJSON = ''json''"

definition codecNameJSONCharsetUTF8 :: string where
  "codecNameJSONCharsetUTF8 = codecNameJSON @ ''; charset=utf-8''"

definition connectUnaryContentTypePrefix :: string where
  "connectUnaryContentTypePrefix = ''application/''"

definition connectStreamingContentTypePrefix :: string where
  "connectStreamingContentTypePrefix = ''application/connect+''"

text \<open>The constants of net/http that the sources name.\<close>

definition StatusOK :: int where "StatusOK = 200"
definition StatusNotModified :: int where "StatusNotModified = 304"
definition MethodGet :: string where "MethodGet = ''GET''"
definition MethodPost :: string where "MethodPost = ''POST''"

datatype StreamType = StreamTypeUnary | StreamTypeClient | StreamTypeServer | StreamTypeBidi

subsection \<open>The error model\<close>

text \<open>
  Modelled from the spec: the \<open>Error\<close> type and its constructors (error.go is not among
  the sources). The spec: "Error: Code, human message, ordered sequence of ErrorDetail,
  optional per-call metadata (headers). A flag distinguishes locally constructed vs
  received from wire". \<open>NewError\<close> builds a locally constructed error, \<open>NewWireError\<close> one
  received from the wire, \<open>errorf\<close> a local one around a formatted message.
  The wrapped Go error is a value of \<open>errCause\<close>: the sentinel \<open>errNotModifiedClient\<close>,
  an \<open>errors.New\<close> of a text, or the message
  \<open>invalid content-type: %q; expecting %q\<close> with its two arguments.
\<close>

datatype errCause =
    errNotModifiedClient
  | errorsNew string
  | errInvalidContentType string string

record 'd Error =
  code :: Code
  err :: errCause
  details :: "'d list"
  meta :: "string \<rightharpoonup> string list"
  wireErr :: bool

definition NewError :: "Code \<Rightarrow> errCause \<Rightarrow> 'd Error" where
  "NewError c underlying =
     \<lparr>code = c, err = underlying, details = [], meta = Map.empty, wireErr = False\<rparr>"

definition NewWireError :: "Code \<Rightarrow> errCause \<Rightarrow> 'd Error" where
  "NewWireError c underlying = (NewError c underlying)\<lparr>wireErr := True\<rparr>"

definition errorf :: "Code \<Rightarrow> errCause \<Rightarrow> 'd Error" where
  "errorf c formatted = NewError c formatted"

subsection \<open>Validation of a unary response's content type\<close>

definition connectCodecForContentType :: "StreamType \<Rightarrow> string \<Rightarrow> string" where
  "connectCodecForContentType streamType contentType =
     (if streamType = StreamTypeUnary
      then strings_TrimPrefix contentType connectUnaryContentTypePrefix
      else strings_TrimPrefix contentType connectStreamingContentTypePrefix)"

text \<open>
  \<open>httpToCode\<close> (protocol.go, not among the sources) is a parameter. The result is the
  returned \<open>*Error\<close>: \<open>None\<close> is nil.
\<close>

definition connectValidateUnaryResponseContentType ::
  "(int \<Rightarrow> Code) \<Rightarrow> string \<Rightarrow> string \<Rightarrow> int \<Rightarrow> string \<Rightarrow> string \<Rightarrow> 'd Error option" where
  "connectValidateUnaryResponseContentType httpToCode requestCodecName httpMethod
       statusCode statusMsg responseContentType =
     (if statusCode \<noteq> StatusOK then
        (if statusCode = StatusNotModified \<and> httpMethod = MethodGet
         then Some (NewWireError CodeUnknown errNotModifiedClient)
         else if responseContentType = connectUnaryContentTypePrefix @ codecNameJSON
                 \<or> responseContentType = connectUnaryContentTypePrefix @ codecNameJSONCharsetUTF8
         then None
         else Some (NewError (httpToCode statusCode) (errorsNew statusMsg)))
      else if \<not> strings_HasPrefix responseContentType connectUnaryContentTypePrefix
      then Some (errorf CodeUnknown
                  (errInvalidContentType responseContentType
                     (connectUnaryContentTypePrefix @ requestCodecName)))
      else
        (let responseCodecName = connectCodecForContentType StreamTypeUnary responseContentType
         in if responseCodecName = requestCodecName then None
            else if (responseCodecName = codecNameJSON
                       \<and> requestCodecName = codecNameJSONCharsetUTF8)
                    \<or> (responseCodecName = codecNameJSONCharsetUTF8
                       \<and> requestCodecName = codecNameJSON)
            then None
            else Some (errorf CodeInternal
                        (errInvalidContentType responseContentType
                           (connectUnaryContentTypePrefix @ requestCodecName)))))"

subsection \<open>Error details on the wire\<close>

text \<open>
  An \<open>ErrorDetail\<close> (declared in error.go; the fields are those protocol\_connect.go
  uses): \<open>pbAny\<close> points to an \<open>anypb.Any\<close> with its type URL and value, \<open>pbInner\<close> is
  the resolved message if any, \<open>wireJSON\<close> the JSON the detail was read from.
  \<open>connectWireDetail\<close> is the same type under another name.
\<close>

record 'm ErrorDetail =
  pbAny :: "(string \<times> string) option"
  pbInner :: "'m option"
  wireJSON :: string

definition GetTypeUrl :: "(string \<times> string) option \<Rightarrow> string" where
  "GetTypeUrl a = (case a of None \<Rightarrow> [] | Some (typeUrl, v) \<Rightarrow> typeUrl)"

definition GetValue :: "(string \<times> string) option \<Rightarrow> string" where
  "GetValue a = (case a of None \<Rightarrow> [] | Some (typeUrl, v) \<Rightarrow> v)"

text \<open>
  Modelled from the spec: the prefix put before a type name that has no "/"
  (declared outside the sources); its value plays no part in what is proved.
\<close>

definition defaultAnyResolverPrefix :: string where
  "defaultAnyResolverPrefix = ''type.googleapis.com/''"

datatype 'e detailError = JSONError 'e | DecodeBase64Error 'e

definition getInner :: "((string \<times> string) option \<Rightarrow> 'e + 'm) \<Rightarrow> 'm ErrorDetail \<Rightarrow> 'e + 'm" where
  "getInner UnmarshalNew d =
     (case pbInner d of Some m \<Rightarrow> Inr m | None \<Rightarrow> UnmarshalNew (pbAny d))"

text \<open>
  \<open>MarshalJSON\<close>. The library calls are parameters: \<open>typeNameForURL\<close>,
  \<open>base64.RawStdEncoding.EncodeToString\<close>, \<open>anypb.Any.UnmarshalNew\<close> (which needs the
  schema and fails without it), \<open>protoJSONCodec.Marshal\<close> and \<open>json.Marshal\<close> of the
  struct \<open>{Type, Value, Debug}\<close>, whose \<open>Debug\<close> is left out when empty.
\<close>

definition connectWireDetail_MarshalJSON ::
  "(string \<Rightarrow> string) \<Rightarrow> (string \<Rightarrow> string) \<Rightarrow> ((string \<times> string) option \<Rightarrow> 'e + 'm) \<Rightarrow>
   ('m \<Rightarrow> 'e + string) \<Rightarrow> (string \<times> string \<times> string option \<Rightarrow> 'e + string) \<Rightarrow>
   'm ErrorDetail \<Rightarrow> 'e + string" where
  "connectWireDetail_MarshalJSON typeNameForURL EncodeToString UnmarshalNew codecMarshal
       jsonMarshal d =
     (if wireJSON d \<noteq> [] then Inr (wireJSON d)
      else
        (let wireType = typeNameForURL (GetTypeUrl (pbAny d));
             wireValue = EncodeToString (GetValue (pbAny d));
             wireDebug =
               (case getInner UnmarshalNew d of
                  Inl e \<Rightarrow> None
                | Inr msg \<Rightarrow>
                    (case codecMarshal msg of Inl e \<Rightarrow> None | Inr debug \<Rightarrow> Some debug))
         in jsonMarshal (wireType, wireValue, wireDebug)))"

text \<open>
  \<open>UnmarshalJSON\<close>. \<open>jsonUnmarshal\<close> is \<open>json.Unmarshal\<close> into the struct
  \<open>{Type, Value}\<close>; \<open>DecodeBinaryHeader\<close> (header.go) is not among the sources and is
  a parameter too. The receiver \<open>d\<close> is overwritten only on success; the result is the
  receiver afterwards and the returned error (\<open>None\<close> is nil).
\<close>

definition connectWireDetail_UnmarshalJSON ::
  "(string \<Rightarrow> 'e + string \<times> string) \<Rightarrow> (string \<Rightarrow> 'e + string) \<Rightarrow>
   'm ErrorDetail \<Rightarrow> string \<Rightarrow> 'm ErrorDetail \<times> 'e detailError option" where
  "connectWireDetail_UnmarshalJSON jsonUnmarshal DecodeBinaryHeader d data =
     (case jsonUnmarshal data of
        Inl e \<Rightarrow> (d, Some (JSONError e))
      | Inr (wireType, wireValue) \<Rightarrow>
          (let wireType' =
                 (if \<not> strings_Contains wireType ''/''
                  then defaultAnyResolverPrefix @ wireType else wireType)
           in case DecodeBinaryHeader wireValue of
                Inl e \<Rightarrow> (d, Some (DecodeBase64Error e))
              | Inr decoded \<Rightarrow>
                  (\<lparr>pbAny = Some (wireType', decoded), pbInner = None, wireJSON = data\<rparr>,
                   None)))"

subsection \<open>Errors on the wire\<close>

record 'd connectWireError =
  Code :: Code
  Message :: string
  Details :: "'d list"

definition zeroWireError :: "'d connectWireError" where
  "zeroWireError = \<lparr>Code = 0, Message = [], Details = []\<rparr>"

text \<open>
  \<open>asError\<close> takes the receiver pointer (\<open>None\<close> is nil) and gives the receiver
  afterwards (its \<open>Code\<close> may be overwritten) and the returned \<open>*Error\<close>.
\<close>

definition asError ::
  "'d connectWireError option \<Rightarrow> 'd connectWireError option \<times> 'd Error option" where
  "asError e =
     (case e of
        None \<Rightarrow> (None, None)
      | Some e0 \<Rightarrow>
          (let e1 = (if Code e0 < minCode \<or> Code e0 > maxCode
                     then e0\<lparr>Code := CodeUnknown\<rparr> else e0);
               err0 = NewWireError (Code e1) (errorsNew (Message e1));
               err1 = (if length (Details e1) > 0
                       then err0\<lparr>details := Details e1\<rparr> else err0)
           in (Some e1, Some err1)))"

text \<open>
  \<open>UnmarshalJSON\<close>. \<open>jsonUnmarshal\<close> is \<open>json.Unmarshal\<close> into the struct
  \<open>{Code string, Message, Details}\<close>. \<open>UnmarshalText\<close> is \<open>Code.UnmarshalText\<close>
  (code.go, not among the sources): \<open>Some c\<close> when it stores \<open>c\<close> in the receiver and
  returns nil, \<open>None\<close> when it returns an error, which "will leave e.Code unset" as the
  source says and which the source discards.
\<close>

definition connectWireError_UnmarshalJSON ::
  "(string \<Rightarrow> 'e + string \<times> string \<times> 'd list) \<Rightarrow> (string \<Rightarrow> Code option) \<Rightarrow>
   'd connectWireError \<Rightarrow> string \<Rightarrow> 'd connectWireError \<times> 'e option" where
  "connectWireError_UnmarshalJSON jsonUnmarshal UnmarshalText e data =
     (case jsonUnmarshal data of
        Inl er \<Rightarrow> (e, Some er)
      | Inr (wireCode, wireMessage, wireDetails) \<Rightarrow>
          (let e1 = e\<lparr>Message := wireMessage, Details := wireDetails\<rparr>;
               e2 = (case UnmarshalText wireCode of
                       None \<Rightarrow> e1
                     | Some c \<Rightarrow> e1\<lparr>Code := c\<rparr>)
           in (e2, None)))"

section \<open>Options (option.go)\<close>

subsection \<open>Interceptors\<close>

text \<open>
  An \<open>Interceptor\<close> wraps a unary call, a streaming client connection and a streaming
  handler connection; the three kinds of wrapped function are the type parameters.
  It is either a single interceptor, given by its three wrap methods, or a chain.

  Modelled from the spec: \<open>newChain\<close> and the wrap methods of a chain (interceptor.go
  is not among the sources). The spec: "Composition order defines onion nesting: the
  first interceptor supplied is outermost: it observes the request/outbound message
  first and the response/inbound message last. For streams this applies symmetrically
  to both the client-side and handler-side connection wrappers." So a chain wraps with
  its last interceptor first and its first interceptor last.
\<close>

datatype ('u, 'c, 'h) Interceptor =
    Single "'u \<Rightarrow> 'u" "'c \<Rightarrow> 'c" "'h \<Rightarrow> 'h"
  | Chain "('u, 'c, 'h) Interceptor list"

definition newChain :: "('u, 'c, 'h) Interceptor list \<Rightarrow> ('u, 'c, 'h) Interceptor" where
  "newChain interceptors = Chain interceptors"

fun WrapUnary :: "('u, 'c, 'h) Interceptor \<Rightarrow> 'u \<Rightarrow> 'u" where
  "WrapUnary (Single wu wc wh) nxt = wu nxt"
| "WrapUnary (Chain interceptors) nxt = foldr WrapUnary interceptors nxt"



text \<open>
  Modelled from the spec: how a config's interceptor is used (client and handler
  construction are not among the sources). The field is an interface value, \<open>None\<close>
  when nil; a config with no interceptor leaves the call unwrapped.
\<close>

definition wrapUnaryWith :: "('u, 'c, 'h) Interceptor option \<Rightarrow> 'u \<Rightarrow> 'u" where
  "wrapUnaryWith i nxt = (case i of None \<Rightarrow> nxt | Some x \<Rightarrow> WrapUnary x nxt)"



text \<open>
  \<open>chainWith\<close>, from the source. The option's interceptors are the first argument,
  \<open>current\<close> is the config's interceptor. The last branch is reached only with a
  \<open>current\<close> that is not nil. The entries of the option's slice are interceptors;
  a nil entry is not modelled.
\<close>

definition chainWith ::
  "('u, 'c, 'h) Interceptor list \<Rightarrow> ('u, 'c, 'h) Interceptor option \<Rightarrow>
   ('u, 'c, 'h) Interceptor option" where
  "chainWith Interceptors current =
     (if length Interceptors = 0 then current
      else if current = None \<and> length Interceptors = 1 then Some (Interceptors ! 0)
      else if current = None \<and> length Interceptors > 1 then Some (newChain Interceptors)
      else Some (newChain ((case current of None \<Rightarrow> [] | Some c \<Rightarrow> [c]) @ Interceptors)))"

subsection \<open>Codecs and configs\<close>

text \<open>
  A \<open>Codec\<close> is an interface with a \<open>Name\<close> method; its other methods are the rest of
  the record. The configs are declared outside the sources: the records hold the
  fields that the options modelled here assign, every other field is the rest of the
  record.
\<close>

record Codec =
  Name :: string

record ('x, 'u, 'c, 'h) clientConfig =
  client_Codec :: "'x Codec_scheme option"
  client_Interceptor :: "('u, 'c, 'h) Interceptor option"

record ('x, 'u, 'c, 'h) handlerConfig =
  handler_Codecs :: "string \<rightharpoonup> 'x Codec_scheme"
  handler_Interceptor :: "('u, 'c, 'h) Interceptor option"

text \<open>The option's \<open>Codec\<close> field is an interface value: \<open>None\<close> is nil.\<close>

definition codecOption_applyToClient ::
  "'x Codec_scheme option \<Rightarrow> ('x, 'u, 'c, 'h, 'z) clientConfig_scheme \<Rightarrow>
   ('x, 'u, 'c, 'h, 'z) clientConfig_scheme" where
  "codecOption_applyToClient o_Codec config =
     (case o_Codec of
        None \<Rightarrow> config
      | Some codec \<Rightarrow>
          if Name codec = [] then config else config\<lparr>client_Codec := Some codec\<rparr>)"

definition codecOption_applyToHandler ::
  "'x Codec_scheme option \<Rightarrow> ('x, 'u, 'c, 'h, 'z) handlerConfig_scheme \<Rightarrow>
   ('x, 'u, 'c, 'h, 'z) handlerConfig_scheme" where
  "codecOption_applyToHandler o_Codec config =
     (case o_Codec of
        None \<Rightarrow> config
      | Some codec \<Rightarrow>
          if Name codec = [] then config
          else config\<lparr>handler_Codecs := (handler_Codecs config)(Name codec \<mapsto> codec)\<rparr>)"



section \<open>Error writer\<close>

text \<open>
  An \<open>http.Header\<close> is a map from a name to its values. A request is its method and
  its headers. A response writer is its header map, the body written so far, and the
  calls of \<open>WriteHeader\<close> so far, each with the status and the header map at that
  moment: what is put in the header map after such a call is sent as a trailer.
\<close>

type_synonym Header = "string \<rightharpoonup> string list"

record Request =
  Method :: string
  Header :: Header

record ResponseWriter =
  response_Header :: Header
  response_WriteHeader :: "(int \<times> Header) list"
  response_Body :: string

definition WriteHeader :: "ResponseWriter \<Rightarrow> int \<Rightarrow> ResponseWriter" where
  "WriteHeader response status =
     response\<lparr>response_WriteHeader :=
                 response_WriteHeader response @ [(status, response_Header response)]\<rparr>"

text \<open>
  Modelled from the spec: the header helpers and the names they are called with
  (header.go and the gRPC protocol file are not among the sources). The spec names the
  headers \<open>Content-Type\<close> and \<open>Trailer\<close> and the content types "application/grpc" and
  "application/grpc+unknowncodec". \<open>getHeaderCanonical\<close> reads the first value under a
  name, the empty string when there is none; \<open>setHeaderCanonical\<close> stores one value
  under a name; \<open>mergeHeaders\<close> appends the values of every name of \<open>from\<close> that has
  some to those of \<open>into\<close>.
\<close>

definition headerContentType :: string where "headerContentType = ''Content-Type''"
definition headerTrailer :: string where "headerTrailer = ''Trailer''"
definition grpcContentTypeDefault :: string where "grpcContentTypeDefault = ''application/grpc''"
definition grpcContentTypePrefix :: string where
  "grpcContentTypePrefix = grpcContentTypeDefault @ ''+''"

definition getHeaderCanonical :: "Header \<Rightarrow> string \<Rightarrow> string" where
  "getHeaderCanonical h key =
     (case h key of None \<Rightarrow> [] | Some [] \<Rightarrow> [] | Some (v # vs) \<Rightarrow> v)"

definition setHeaderCanonical :: "Header \<Rightarrow> string \<Rightarrow> string \<Rightarrow> Header" where
  "setHeaderCanonical h key v = h(key \<mapsto> [v])"

definition mergeHeaders :: "Header \<Rightarrow> Header \<Rightarrow> Header" where
  "mergeHeaders into from' =
     (\<lambda>key. case from' key of
              None \<Rightarrow> into key
            | Some vals \<Rightarrow>
                if length vals = 0 then into key
                else Some ((case into key of None \<Rightarrow> [] | Some old \<Rightarrow> old) @ vals))"

datatype protocolType = unknownProtocol | grpcProtocol

record ('b, 'p) ErrorWriter =
  bufferPool :: 'b
  protobuf :: 'p
  requireConnectProtocolHeader :: bool

text \<open>
  \<open>canonicalizeContentType\<close> (not among the sources) is the parameter \<open>canon\<close>.
\<close>

definition classifyRequest ::
  "(string \<Rightarrow> string) \<Rightarrow> ('b, 'p) ErrorWriter \<Rightarrow> Request \<Rightarrow> protocolType" where
  "classifyRequest canon w request =
     (let ctype = canon (getHeaderCanonical (Header request) headerContentType);
          isPost = (Method request = MethodPost)
      in if isPost \<and> (ctype = grpcContentTypeDefault
                        \<or> strings_HasPrefix ctype grpcContentTypePrefix)
         then grpcProtocol
         else unknownProtocol)"

definition IsSupported ::
  "(string \<Rightarrow> string) \<Rightarrow> ('b, 'p) ErrorWriter \<Rightarrow> Request \<Rightarrow> bool" where
  "IsSupported canon w request = (classifyRequest canon w request \<noteq> unknownProtocol)"

text \<open>
  Modelled from the spec: \<open>grpcErrorToTrailer\<close> (the gRPC protocol file is not among
  the sources). The spec: "errors are communicated via HTTP trailers rather than an
  end-of-stream envelope: status code and message are written as trailer fields". The
  trailer fields are \<open>Grpc-Status\<close>, which holds the error's code in decimal, and
  \<open>Grpc-Message\<close>, which holds the error's message. The error is an \<open>Error\<close> of the
  error model; its message is the text of the Go error it wraps, which that error's
  \<open>Error\<close> method gives: the parameter \<open>errorText\<close>. A nil error and an error of
  another type are not modelled. \<open>strconv_Itoa\<close> is Go's decimal rendering of a
  number that is not negative; \<open>parseDecimal\<close> reads it back.
\<close>

definition grpcHeaderStatus :: string where "grpcHeaderStatus = ''Grpc-Status''"
definition grpcHeaderMessage :: string where "grpcHeaderMessage = ''Grpc-Message''"

definition digit :: "nat \<Rightarrow> char" where
  "digit d = ''0123456789'' ! d"

fun strconv_Itoa :: "nat \<Rightarrow> string" where
  "strconv_Itoa n =
     (if n < 10 then [digit n] else strconv_Itoa (n div 10) @ [digit (n mod 10)])"

declare strconv_Itoa.simps [simp del]

definition digitValue :: "char \<Rightarrow> nat" where
  "digitValue c = of_char c - 48"

definition parseDecimal :: "string \<Rightarrow> nat" where
  "parseDecimal s = foldl (\<lambda>acc c. 10 * acc + digitValue c) 0 s"

definition grpcErrorToTrailer ::
  "(errCause \<Rightarrow> string) \<Rightarrow> Header \<Rightarrow> 'p \<Rightarrow> 'd Error \<Rightarrow> Header" where
  "grpcErrorToTrailer errorText trailer protobuf' err' =
     setHeaderCanonical
       (setHeaderCanonical trailer grpcHeaderStatus (strconv_Itoa (code err')))
       grpcHeaderMessage (errorText (err err'))"

text \<open>
  \<open>writeGRPC\<close> and \<open>Write\<close>, from the source. Go visits the keys of a map in an
  order of its choosing: \<open>rangeKeys\<close> is that order for the loop over \<open>trailers\<close>.
  The result is the response writer afterwards and the returned error (\<open>None\<close> is
  nil).
\<close>

definition writeGRPC ::
  "(errCause \<Rightarrow> string) \<Rightarrow> (Header \<Rightarrow> string list) \<Rightarrow> ('b, 'p) ErrorWriter \<Rightarrow>
   ResponseWriter \<Rightarrow> 'd Error \<Rightarrow> ResponseWriter \<times> 'werr option" where
  "writeGRPC errorText rangeKeys w response err' =
     (let trailers = grpcErrorToTrailer errorText Map.empty (protobuf w) err';
          keys = rangeKeys trailers;
          response1 = response\<lparr>response_Header :=
                        setHeaderCanonical (response_Header response) headerTrailer
                          (strings_Join keys '','')\<rparr>;
          response2 = WriteHeader response1 StatusOK;
          response3 = response2\<lparr>response_Header :=
                        mergeHeaders (response_Header response2) trailers\<rparr>
      in (response3, None))"

definition Write ::
  "(string \<Rightarrow> string) \<Rightarrow> (errCause \<Rightarrow> string) \<Rightarrow> (Header \<Rightarrow> string list) \<Rightarrow>
   ('b, 'p) ErrorWriter \<Rightarrow> ResponseWriter \<Rightarrow> Request \<Rightarrow> 'd Error \<Rightarrow>
   ResponseWriter \<times> 'werr option" where
  "Write canon errorText rangeKeys w response request err' =
     (let ctype = canon (getHeaderCanonical (Header request) headerContentType)
      in case classifyRequest canon w request of
           grpcProtocol \<Rightarrow>
             writeGRPC errorText rangeKeys w
               (response\<lparr>response_Header :=
                  setHeaderCanonical (response_Header response) headerContentType ctype\<rparr>)
               err'
         | unknownProtocol \<Rightarrow> (response, None))"

section \<open>Example values\<close>

text \<open>
  An interceptor that records its name before and after the call it wraps, an error
  writer, the text of an error made by \<open>errors.New\<close> (the texts of the other causes
  play no part in the examples), and a response writer to which nothing was written
  yet.
\<close>

definition recorder :: "string \<Rightarrow> (string list \<Rightarrow> string list, unit, unit) Interceptor" where
  "recorder n =
     Single (\<lambda>nxt log. nxt (log @ [n @ ''-pre'']) @ [n @ ''-post'']) (\<lambda>c. c) (\<lambda>h. h)"

definition exampleWriter :: "(unit, unit) ErrorWriter" where
  "exampleWriter = \<lparr>bufferPool = (), protobuf = (), requireConnectProtocolHeader = False\<rparr>"

definition exampleErrorText :: "errCause \<Rightarrow> string" where
  "exampleErrorText cause = (case cause of errorsNew s \<Rightarrow> s | _ \<Rightarrow> [])"

definition emptyResponse :: ResponseWriter where
  "emptyResponse =
     \<lparr>response_Header = Map.empty, response_WriteHeader = [], response_Body = []\<rparr>"

section \<open>Unfolding rules\<close>

lemmas Code_defs =
  CodeCanceled_def CodeUnknown_def CodeInvalidArgument_def CodeDeadlineExceeded_def
  CodeNotFound_def CodeAlreadyExists_def CodePermissionDenied_def
  CodeResourceExhausted_def CodeFailedPrecondition_def CodeAborted_def
  CodeOutOfRange_def CodeUnimplemented_def CodeInternal_def CodeUnavailable_def
  CodeDataLoss_def CodeUnauthenticated_def minCode_def maxCode_def

section \<open>Properties of the compression registry\<close>

text \<open>
  The loop keeps, of every name, its last registration, and lists the names from the
  most recent registration back: every distinct name once.
\<close>

lemma remdups_snoc:
  "remdups (ys @ [x]) = filter (\<lambda>y. y \<noteq> x) (remdups ys) @ [x]"
  by (induction ys) auto

lemma collectNames_general:
  "collectNames xs acc (set acc)
     = acc @ rev (remdups (rev (filter (\<lambda>x. x \<notin> set acc) xs)))"
proof (induction xs arbitrary: acc)
  case Nil
  then show ?case by simp
next
  case (Cons x xs)
  show ?case
  proof (cases "x \<in> set acc")
    case True
    then show ?thesis using Cons.IH [of acc] by simp
  next
    case False
    have "collectNames (x # xs) acc (set acc) = collectNames xs (acc @ [x]) (set (acc @ [x]))"
      using False by simp
    also have "\<dots> = (acc @ [x]) @ rev (remdups (rev (filter (\<lambda>y. y \<notin> set (acc @ [x])) xs)))"
      by (rule Cons.IH)
    also have "filter (\<lambda>y. y \<notin> set (acc @ [x])) xs
                 = filter (\<lambda>y. y \<noteq> x) (filter (\<lambda>y. y \<notin> set acc) xs)"
      by (auto intro: filter_cong)
    finally show ?thesis
      using False
      by (simp add: remdups_snoc remdups_filter rev_filter)
  qed
qed

lemma collectNames_remdups:
  "collectNames (rev reversedNames) [] {} = rev (remdups reversedNames)"
  using collectNames_general [of "rev reversedNames" "[]"] by simp

lemma collectNames_distinct:
  "distinct (collectNames (rev reversedNames) [] {})"
  by (simp add: collectNames_remdups)

lemma collectNames_set:
  "set (collectNames (rev reversedNames) [] {}) = set reversedNames"
  by (simp add: collectNames_remdups)

lemma Get_identity:
  "Get m compressionIdentity = None" "Get m [] = None"
  by (simp_all add: Get_def)

lemma collectNames_example:
  assumes "a \<noteq> b" "a \<noteq> c" "b \<noteq> c"
  shows "collectNames (rev [a, b, a, c]) [] {} = [c, a, b]"
  using assms by auto

lemma registry_unfold:
  "registry [(a, pa), (b, pb), (a, pa'), (c, pc)] =
     newReadOnlyCompressionPools
       ((((Map.empty(a \<mapsto> pa))(b \<mapsto> pb))(a \<mapsto> pa'))(c \<mapsto> pc)) [a, b, a, c]"
  by (simp add: registry_def registerCompression_def emptyCompressionConfig_def)

text \<open>
  Claim C1, as amended. For all distinct compression names a, b, c, registering them
  in the order [a, b, a, c] yields a registry whose CommaSeparatedNames advertises the
  order [c, a, b]: each distinct name once, ordered by its most recent registration
  (a was last registered after b, so a precedes b). Contains returns true for exactly
  the names a, b and c.
\<close>

theorem C1_registration_order:
  assumes "a \<noteq> b" "a \<noteq> c" "b \<noteq> c"
  shows "CommaSeparatedNames (registry [(a, pa), (b, pb), (a, pa'), (c, pc)])
           = c @ '','' @ a @ '','' @ b
         \<and> (\<forall>n. Contains (registry [(a, pa), (b, pb), (a, pa'), (c, pc)]) n
                  = (n \<in> {a, b, c}))"
proof -
  have names: "collectNames (rev [a, b, a, c]) [] {} = [c, a, b]"
    using assms by (rule collectNames_example)
  have "CommaSeparatedNames (registry [(a, pa), (b, pb), (a, pa'), (c, pc)])
          = strings_Join [c, a, b] '',''"
    unfolding registry_unfold CommaSeparatedNames_def newReadOnlyCompressionPools_def
    using names by (simp add: Let_def)
  moreover have "\<forall>n. Contains (registry [(a, pa), (b, pb), (a, pa'), (c, pc)]) n
                  = (n \<in> {a, b, c})"
    unfolding registry_unfold Contains_def newReadOnlyCompressionPools_def
    by (auto simp: Let_def)
  ultimately show ?thesis by simp
qed

theorem C1_registration_order_witness:
  "CommaSeparatedNames
     (registry [(''gzip'', Some (1::nat)), (''br'', Some 2), (''gzip'', Some 3), (''zstd'', Some 4)])
     = ''zstd,gzip,br''
   \<and> Contains
       (registry [(''gzip'', Some (1::nat)), (''br'', Some 2), (''gzip'', Some 3), (''zstd'', Some 4)])
       ''br''
   \<and> \<not> Contains
       (registry [(''gzip'', Some (1::nat)), (''br'', Some 2), (''gzip'', Some 3), (''zstd'', Some 4)])
       ''identity''"
  using C1_registration_order [of "''gzip''" "''br''" "''zstd''" "Some (1::nat)" "Some 2" "Some 3" "Some 4"]
  by simp

text \<open>
  The claim as the spec words it, advertised order [c, b, a], fails: with the names
  "a", "b", "c" the registry advertises "c,a,b".
\<close>

theorem C1_spec_order_counterexample:
  "CommaSeparatedNames
     (registry [(''a'', Some (1::nat)), (''b'', Some 2), (''a'', Some 3), (''c'', Some 4)])
     = ''c,a,b''
   \<and> CommaSeparatedNames
       (registry [(''a'', Some (1::nat)), (''b'', Some 2), (''a'', Some 3), (''c'', Some 4)])
     \<noteq> ''c,b,a''
   \<and> collectNames (rev [''a'', ''b'', ''a'', ''c'']) [] {} \<noteq> [''c'', ''b'', ''a'']"
  by (simp add: registry_def registerCompression_def emptyCompressionConfig_def
      CommaSeparatedNames_def newReadOnlyCompressionPools_def Let_def)

section \<open>Properties of the code to status mapping\<close>

text \<open>
  Claim C5. connectCodeToHTTP is a total function over all Code values: every value is
  mapped to one of the listed statuses. It maps InvalidArgument to 400, NotFound to 404,
  ResourceExhausted to 429, Unimplemented to 501, Unavailable to 503, Unauthenticated to
  401, Canceled to 499, and Unknown as well as any value outside the enumeration to 500.
\<close>

theorem C5_connectCodeToHTTP:
  "connectCodeToHTTP CodeInvalidArgument = 400
   \<and> connectCodeToHTTP CodeNotFound = 404
   \<and> connectCodeToHTTP CodeResourceExhausted = 429
   \<and> connectCodeToHTTP CodeUnimplemented = 501
   \<and> connectCodeToHTTP CodeUnavailable = 503
   \<and> connectCodeToHTTP CodeUnauthenticated = 401
   \<and> connectCodeToHTTP CodeCanceled = 499
   \<and> connectCodeToHTTP CodeUnknown = 500
   \<and> (\<forall>code. code < minCode \<or> maxCode < code \<longrightarrow> connectCodeToHTTP code = 500)
   \<and> (\<forall>code. connectCodeToHTTP code
         \<in> {400, 401, 403, 404, 409, 429, 499, 500, 501, 503, 504})"
  by (simp add: connectCodeToHTTP_def Code_defs)

theorem C5_connectCodeToHTTP_witness:
  "0 < minCode \<and> maxCode < 17
   \<and> connectCodeToHTTP 0 = 500 \<and> connectCodeToHTTP 17 = 500
   \<and> connectCodeToHTTP CodeNotFound = 404"
  using C5_connectCodeToHTTP by (simp add: Code_defs)

section \<open>Properties of the content type validation\<close>

lemmas validate_defs =
  connectValidateUnaryResponseContentType_def connectCodecForContentType_def
  strings_TrimPrefix_def strings_HasPrefix_def codecNameJSON_def
  codecNameJSONCharsetUTF8_def connectUnaryContentTypePrefix_def StatusOK_def
  StatusNotModified_def MethodGet_def MethodPost_def

text \<open>
  Claim C8. connectValidateUnaryResponseContentType("json", "POST", 200, "",
  "application/json; charset=utf-8") returns nil: for a 200 response, a bare JSON content
  subtype and the JSON-with-charset subtype are treated as equal in both directions,
  whatever the method and the status message.
\<close>

theorem C8_json_charset_equivalence:
  "connectValidateUnaryResponseContentType httpToCode ''json'' ''POST'' 200 ''''
       ''application/json; charset=utf-8'' = None
   \<and> connectValidateUnaryResponseContentType httpToCode codecNameJSON httpMethod StatusOK
       statusMsg (connectUnaryContentTypePrefix @ codecNameJSONCharsetUTF8) = None
   \<and> connectValidateUnaryResponseContentType httpToCode codecNameJSONCharsetUTF8 httpMethod
       StatusOK statusMsg (connectUnaryContentTypePrefix @ codecNameJSON) = None"
  by (simp add: validate_defs)

text \<open>
  Claim C9. connectValidateUnaryResponseContentType("proto", "GET", 304, "", "") returns
  a wire Error with code CodeUnknown that wraps the "not modified" sentinel, not the
  error derived from the HTTP status code; and for all arguments the function returns
  that error, or any error wrapping the sentinel, exactly when the status is 304 and
  the method is GET.
\<close>

theorem C9_not_modified:
  "connectValidateUnaryResponseContentType httpToCode ''proto'' ''GET'' 304 '''' ''''
     = Some (NewWireError CodeUnknown errNotModifiedClient)
   \<and> connectValidateUnaryResponseContentType httpToCode ''proto'' ''GET'' 304 '''' ''''
     \<noteq> Some (NewError (httpToCode 304) (errorsNew '''') :: 'd Error)
   \<and> code (NewWireError CodeUnknown errNotModifiedClient :: 'd Error) = CodeUnknown
   \<and> err (NewWireError CodeUnknown errNotModifiedClient :: 'd Error) = errNotModifiedClient
   \<and> wireErr (NewWireError CodeUnknown errNotModifiedClient :: 'd Error)
   \<and> ((connectValidateUnaryResponseContentType httpToCode requestCodecName httpMethod
          statusCode statusMsg responseContentType
        = Some (NewWireError CodeUnknown errNotModifiedClient :: 'd Error))
      = (statusCode = 304 \<and> httpMethod = ''GET''))
   \<and> ((\<exists>e :: 'd Error. connectValidateUnaryResponseContentType httpToCode requestCodecName
            httpMethod statusCode statusMsg responseContentType = Some e
          \<and> err e = errNotModifiedClient)
      = (statusCode = 304 \<and> httpMethod = ''GET''))"
  by (auto simp: validate_defs NewWireError_def NewError_def errorf_def Let_def)

section \<open>Properties of the wire details and the wire errors\<close>

lemma UnmarshalJSON_success:
  assumes "connectWireDetail_UnmarshalJSON jsonUnmarshal DecodeBinaryHeader d0 data = (d, None)"
  shows "wireJSON d = data \<and> (\<exists>wire. jsonUnmarshal data = Inr wire)"
  using assms
  by (auto simp: connectWireDetail_UnmarshalJSON_def Let_def split: sum.splits prod.splits)

text \<open>
  Claim C2. For every ErrorDetail that was unmarshaled from Connect wire JSON (for
  example {"type":"x/y","value":"Zm9v"}), marshaling it back to JSON returns exactly the
  original input bytes, even when no schema is available to resolve the type URL: the
  result does not depend on the library calls of the other branch, which may all fail.
  The one fact used of json.Unmarshal is that it rejects the empty input, so that the
  bytes of a detail that was unmarshaled are not empty.
\<close>

theorem C2_detail_roundtrip:
  assumes "isl (jsonUnmarshal [])"
    and "connectWireDetail_UnmarshalJSON jsonUnmarshal DecodeBinaryHeader d0 data = (d, None)"
  shows "connectWireDetail_MarshalJSON typeNameForURL EncodeToString UnmarshalNew
           codecMarshal jsonMarshal d = Inr data"
proof -
  from assms(2) have w: "wireJSON d = data" and p: "\<exists>wire. jsonUnmarshal data = Inr wire"
    using UnmarshalJSON_success by blast+
  from p assms(1) have "data \<noteq> []" by auto
  with w show ?thesis by (simp add: connectWireDetail_MarshalJSON_def)
qed

theorem C2_detail_roundtrip_witness:
  \<open>fst (connectWireDetail_UnmarshalJSON
      (\<lambda>s. if s = ''{"type":"x/y","value":"Zm9v"}'' then Inr (''x/y'', ''Zm9v'') else Inl ())
      (\<lambda>v. if v = ''Zm9v'' then Inr ''foo'' else Inl ())
      \<lparr>pbAny = None, pbInner = (None :: unit option), wireJSON = []\<rparr>
      ''{"type":"x/y","value":"Zm9v"}'')
    = \<lparr>pbAny = Some (''x/y'', ''foo''), pbInner = None,
       wireJSON = ''{"type":"x/y","value":"Zm9v"}''\<rparr>
   \<and> connectWireDetail_MarshalJSON (\<lambda>u. u) (\<lambda>v. v) (\<lambda>a. Inl ()) (\<lambda>m. Inl ()) (\<lambda>w. Inl ())
      \<lparr>pbAny = Some (''x/y'', ''foo''), pbInner = (None :: unit option),
        wireJSON = ''{"type":"x/y","value":"Zm9v"}''\<rparr>
    = Inr ''{"type":"x/y","value":"Zm9v"}''\<close>
proof -
  let ?parse = \<open>\<lambda>s. if s = ''{"type":"x/y","value":"Zm9v"}''
                    then Inr (''x/y'', ''Zm9v'') else (Inl () :: unit + string \<times> string)\<close>
  let ?decode = \<open>\<lambda>v. if v = ''Zm9v'' then Inr ''foo'' else (Inl () :: unit + string)\<close>
  let ?fresh = "\<lparr>pbAny = None, pbInner = (None :: unit option), wireJSON = []\<rparr>"
  let ?d = \<open>\<lparr>pbAny = Some (''x/y'', ''foo''), pbInner = (None :: unit option),
              wireJSON = ''{"type":"x/y","value":"Zm9v"}''\<rparr>\<close>
  have h1: "isl (?parse [])" by simp
  have h2: \<open>connectWireDetail_UnmarshalJSON ?parse ?decode ?fresh
              ''{"type":"x/y","value":"Zm9v"}'' = (?d, None)\<close>
    by (simp add: connectWireDetail_UnmarshalJSON_def)
  have h3: \<open>fst (connectWireDetail_UnmarshalJSON ?parse ?decode ?fresh
              ''{"type":"x/y","value":"Zm9v"}'') = ?d\<close>
    by (simp only: h2 fst_conv)
  note h4 = C2_detail_roundtrip [OF h1 h2,
      of "\<lambda>u. u" "\<lambda>v. v" "\<lambda>a. Inl ()" "\<lambda>m. Inl ()" "\<lambda>w. Inl ()"]
  from h3 h4 show ?thesis by (rule conjI)
qed

text \<open>
  Claim C4. For every Connect wire-error JSON document whose "code" field is a string
  that Code.UnmarshalText does not recognize (unrecognized or malformed) or that it
  reads as a value outside the range of the enumeration, unmarshaling into a new
  connectWireError does not fail: the message and the details are those of the
  document, and asError gives an Error whose Code is CodeUnknown, with that message and
  those details.
\<close>

theorem C4_lenient_code:
  assumes "jsonUnmarshal data = Inr (wireCode, wireMessage, wireDetails)"
    and "UnmarshalText wireCode = None
         \<or> (\<exists>c. UnmarshalText wireCode = Some c \<and> (c < minCode \<or> maxCode < c))"
  shows "\<exists>e. connectWireError_UnmarshalJSON jsonUnmarshal UnmarshalText zeroWireError data
               = (e, None)
             \<and> Message e = wireMessage \<and> Details e = wireDetails
             \<and> (\<exists>er. snd (asError (Some e)) = Some er
                     \<and> code er = CodeUnknown \<and> err er = errorsNew wireMessage
                     \<and> details er = wireDetails \<and> wireErr er)"
  using assms
  by (auto simp: connectWireError_UnmarshalJSON_def zeroWireError_def asError_def Let_def
      NewWireError_def NewError_def Code_defs)

theorem C4_lenient_code_witness:
  \<open>(\<exists>e. connectWireError_UnmarshalJSON
           (\<lambda>s. if s = ''{"code":"bogus","message":"boom"}''
                then Inr (''bogus'', ''boom'', [1::nat]) else Inl ())
           (\<lambda>t. if t = ''not_found'' then Some CodeNotFound else None)
           zeroWireError ''{"code":"bogus","message":"boom"}'' = (e, None)
         \<and> Message e = ''boom'' \<and> Details e = [1]
         \<and> (\<exists>er. snd (asError (Some e)) = Some er
                 \<and> code er = CodeUnknown \<and> err er = errorsNew ''boom''
                 \<and> details er = [1] \<and> wireErr er))
   \<and> (\<exists>e. connectWireError_UnmarshalJSON
           (\<lambda>s. if s = ''{"code":"code_99"}''
                then Inr (''code_99'', [], ([] :: nat list)) else Inl ())
           (\<lambda>t. if t = ''code_99'' then Some 99 else None)
           zeroWireError ''{"code":"code_99"}'' = (e, None)
         \<and> Message e = [] \<and> Details e = []
         \<and> (\<exists>er. snd (asError (Some e)) = Some er
                 \<and> code er = CodeUnknown \<and> err er = errorsNew []
                 \<and> details er = [] \<and> wireErr er))\<close>
proof (rule conjI)
  let ?parse = \<open>\<lambda>s. if s = ''{"code":"bogus","message":"boom"}''
                    then Inr (''bogus'', ''boom'', [1::nat])
                    else (Inl () :: unit + string \<times> string \<times> nat list)\<close>
  let ?text = "\<lambda>t. if t = ''not_found'' then Some CodeNotFound else None"
  have h1: \<open>?parse ''{"code":"bogus","message":"boom"}'' = Inr (''bogus'', ''boom'', [1])\<close>
    by simp
  have h2: "?text ''bogus'' = None
            \<or> (\<exists>c. ?text ''bogus'' = Some c \<and> (c < minCode \<or> maxCode < c))"
    by simp
  show \<open>\<exists>e. connectWireError_UnmarshalJSON ?parse ?text zeroWireError
              ''{"code":"bogus","message":"boom"}'' = (e, None)
            \<and> Message e = ''boom'' \<and> Details e = [1]
            \<and> (\<exists>er. snd (asError (Some e)) = Some er
                    \<and> code er = CodeUnknown \<and> err er = errorsNew ''boom''
                    \<and> details er = [1] \<and> wireErr er)\<close>
    by (rule C4_lenient_code [where jsonUnmarshal = ?parse and UnmarshalText = ?text
          and wireCode = "''bogus''" and wireMessage = "''boom''" and wireDetails = "[1]",
          OF h1 h2])
next
  let ?parse = \<open>\<lambda>s. if s = ''{"code":"code_99"}''
                    then Inr (''code_99'', [], ([] :: nat list))
                    else (Inl () :: unit + string \<times> string \<times> nat list)\<close>
  let ?text = "\<lambda>t. if t = ''code_99'' then Some (99 :: nat) else None"
  have h1: \<open>?parse ''{"code":"code_99"}'' = Inr (''code_99'', [], [])\<close>
    by simp
  have h2: "?text ''code_99'' = None
            \<or> (\<exists>c. ?text ''code_99'' = Some c \<and> (c < minCode \<or> maxCode < c))"
    by (simp add: Code_defs)
  show \<open>\<exists>e. connectWireError_UnmarshalJSON ?parse ?text zeroWireError
              ''{"code":"code_99"}'' = (e, None)
            \<and> Message e = [] \<and> Details e = []
            \<and> (\<exists>er. snd (asError (Some e)) = Some er
                    \<and> code er = CodeUnknown \<and> err er = errorsNew []
                    \<and> details er = [] \<and> wireErr er)\<close>
    by (rule C4_lenient_code [where jsonUnmarshal = ?parse and UnmarshalText = ?text
          and wireCode = "''code_99''" and wireMessage = "[]" and wireDetails = "[]",
          OF h1 h2])
qed

section \<open>Properties of the options\<close>




text \<open>
  With no interceptor configured before, the two ways build the very same chain; the
  recorded sequence of hooks around a call shows the nesting.
\<close>

lemma chainWith_from_nil:
  "chainWith [B, C] (chainWith [A] None) = chainWith [A, B, C] None"
  by (simp add: chainWith_def)

lemma chainWith_trace:
  "wrapUnaryWith (chainWith [recorder ''B'', recorder ''C''] (chainWith [recorder ''A''] None))
      (\<lambda>log. log @ [''call'']) []
    = [''A-pre'', ''B-pre'', ''C-pre'', ''call'', ''C-post'', ''B-post'', ''A-post'']"
  by (simp add: chainWith_def newChain_def wrapUnaryWith_def recorder_def)


text \<open>
  Claim C10. Applying the WithCodec option with a nil codec, or with a codec whose
  Name() is the empty string, leaves the configuration completely unchanged: the client
  config keeps its Codec (and every other field), and the handler config's Codecs map
  gains no entry (and every other field stays).
\<close>

theorem C10_codec_noop:
  fixes cc :: "('x, 'u, 'c, 'h, 'z) clientConfig_scheme"
    and hc :: "('x, 'u, 'c, 'h, 'y) handlerConfig_scheme"
  assumes "o_Codec = None \<or> (\<exists>codec. o_Codec = Some codec \<and> Name codec = [])"
  shows "codecOption_applyToClient o_Codec cc = cc
         \<and> codecOption_applyToHandler o_Codec hc = hc"
  using assms
  by (auto simp: codecOption_applyToClient_def codecOption_applyToHandler_def)

theorem C10_codec_noop_witness:
  "codecOption_applyToClient None
      \<lparr>client_Codec = Some \<lparr>Name = ''proto''\<rparr>,
        client_Interceptor = (None :: (unit, unit, unit) Interceptor option)\<rparr>
     = \<lparr>client_Codec = Some \<lparr>Name = ''proto''\<rparr>, client_Interceptor = None\<rparr>
   \<and> codecOption_applyToHandler None
      \<lparr>handler_Codecs = [''proto'' \<mapsto> \<lparr>Name = ''proto''\<rparr>],
        handler_Interceptor = (None :: (unit, unit, unit) Interceptor option)\<rparr>
     = \<lparr>handler_Codecs = [''proto'' \<mapsto> \<lparr>Name = ''proto''\<rparr>], handler_Interceptor = None\<rparr>
   \<and> codecOption_applyToClient (Some \<lparr>Name = []\<rparr>)
      \<lparr>client_Codec = Some \<lparr>Name = ''proto''\<rparr>,
        client_Interceptor = (None :: (unit, unit, unit) Interceptor option)\<rparr>
     = \<lparr>client_Codec = Some \<lparr>Name = ''proto''\<rparr>, client_Interceptor = None\<rparr>
   \<and> codecOption_applyToHandler (Some \<lparr>Name = []\<rparr>)
      \<lparr>handler_Codecs = [''proto'' \<mapsto> \<lparr>Name = ''proto''\<rparr>],
        handler_Interceptor = (None :: (unit, unit, unit) Interceptor option)\<rparr>
     = \<lparr>handler_Codecs = [''proto'' \<mapsto> \<lparr>Name = ''proto''\<rparr>], handler_Interceptor = None\<rparr>"
proof -
  let ?cc = "\<lparr>client_Codec = Some \<lparr>Name = ''proto''\<rparr>,
              client_Interceptor = (None :: (unit, unit, unit) Interceptor option)\<rparr>"
  let ?hc = "\<lparr>handler_Codecs = [''proto'' \<mapsto> \<lparr>Name = ''proto''\<rparr>],
              handler_Interceptor = (None :: (unit, unit, unit) Interceptor option)\<rparr>"
  have n: "(None :: Codec option) = None
           \<or> (\<exists>codec. (None :: Codec option) = Some codec \<and> Name codec = [])"
    by simp
  have e: "Some \<lparr>Name = []\<rparr> = None
           \<or> (\<exists>codec. Some \<lparr>Name = []\<rparr> = Some codec \<and> Name codec = [])"
    by simp
  from C10_codec_noop [OF n, of ?cc ?hc] C10_codec_noop [OF e, of ?cc ?hc]
  show ?thesis by (intro conjI) (elim conjE; assumption)+
qed

section \<open>Properties of the error writer\<close>

text \<open>
  Claim C6. The ErrorWriter's request classification returns gRPC (and IsSupported
  returns true) exactly when the request method is POST and the canonicalized
  Content-Type either equals the default gRPC media type or starts with the gRPC codec
  prefix; in particular IsSupported is true for a POST with Content-Type
  application/grpc and for application/grpc+codec with any codec suffix, whether or
  not that codec is supported, these content types being in canonical form already.
\<close>

theorem C6_classification:
  "(classifyRequest canon w request = grpcProtocol)
     = (Method request = ''POST''
        \<and> (canon (getHeaderCanonical (Header request) ''Content-Type'') = ''application/grpc''
           \<or> prefix ''application/grpc+''
                (canon (getHeaderCanonical (Header request) ''Content-Type''))))
   \<and> IsSupported canon w request = (classifyRequest canon w request = grpcProtocol)
   \<and> (canon ''application/grpc'' = ''application/grpc'' \<longrightarrow>
        IsSupported canon w
          \<lparr>Method = ''POST'', Header = [''Content-Type'' \<mapsto> [''application/grpc'']]\<rparr>)
   \<and> (\<forall>codec. canon (''application/grpc+'' @ codec) = ''application/grpc+'' @ codec \<longrightarrow>
        IsSupported canon w
          \<lparr>Method = ''POST'',
            Header = [''Content-Type'' \<mapsto> [''application/grpc+'' @ codec]]\<rparr>)"
  by (auto simp: classifyRequest_def IsSupported_def Let_def MethodPost_def
      grpcContentTypeDefault_def grpcContentTypePrefix_def headerContentType_def
      strings_HasPrefix_def getHeaderCanonical_def)

theorem C6_classification_witness:
  "IsSupported (\<lambda>s. s) exampleWriter
     \<lparr>Method = ''POST'', Header = [''Content-Type'' \<mapsto> [''application/grpc'']]\<rparr>
   \<and> IsSupported (\<lambda>s. s) exampleWriter
     \<lparr>Method = ''POST'',
       Header = [''Content-Type'' \<mapsto> [''application/grpc+'' @ ''unknowncodec'']]\<rparr>
   \<and> \<not> IsSupported (\<lambda>s. s) exampleWriter
     \<lparr>Method = ''GET'', Header = [''Content-Type'' \<mapsto> [''application/grpc'']]\<rparr>"
  using C6_classification [of "\<lambda>s. s" exampleWriter
      "\<lparr>Method = ''GET'', Header = [''Content-Type'' \<mapsto> [''application/grpc'']]\<rparr>"]
  by simp

text \<open>
  The decimal rendering of a code can be read back, so the status trailer tells the
  codes of two errors apart.
\<close>

lemma digit_cases:
  assumes "(d :: nat) < 10"
  shows "d \<in> {0, 1, 2, 3, 4, 5, 6, 7, 8, 9}"
  using assms by auto

lemma digitValue_digit: "d < 10 \<Longrightarrow> digitValue (digit d) = d"
  using digit_cases [of d] by (auto simp: digit_def digitValue_def)

lemma parseDecimal_Itoa: "parseDecimal (strconv_Itoa n) = n"
proof (induction n rule: strconv_Itoa.induct)
  case (1 n)
  show ?case
  proof (cases "n < 10")
    case True
    then show ?thesis
      by (subst strconv_Itoa.simps) (simp add: parseDecimal_def digitValue_digit)
  next
    case False
    with 1 have "parseDecimal (strconv_Itoa (n div 10)) = n div 10" by simp
    with False show ?thesis
      by (subst strconv_Itoa.simps) (simp add: parseDecimal_def digitValue_digit)
  qed
qed

lemma grpcErrorToTrailer_status:
  "grpcErrorToTrailer errorText trailer p e ''Grpc-Status'' = Some [strconv_Itoa (code e)]"
  by (simp add: grpcErrorToTrailer_def setHeaderCanonical_def grpcHeaderStatus_def
      grpcHeaderMessage_def)

lemma grpcErrorToTrailer_message:
  "grpcErrorToTrailer errorText trailer p e ''Grpc-Message'' = Some [errorText (err e)]"
  by (simp add: grpcErrorToTrailer_def setHeaderCanonical_def grpcHeaderMessage_def)

lemma grpcErrorToTrailer_dom:
  "dom (grpcErrorToTrailer errorText Map.empty p e) = {''Grpc-Status'', ''Grpc-Message''}"
  by (auto simp: grpcErrorToTrailer_def setHeaderCanonical_def grpcHeaderStatus_def
      grpcHeaderMessage_def split: if_splits)

lemma grpcErrorToTrailer_tells_code:
  assumes "grpcErrorToTrailer errorText trailer p e ''Grpc-Status''
             = grpcErrorToTrailer errorText' trailer' p' e' ''Grpc-Status''"
  shows "code e = code e'"
proof -
  from assms have "strconv_Itoa (code e) = strconv_Itoa (code e')"
    by (simp add: grpcErrorToTrailer_status)
  then have "parseDecimal (strconv_Itoa (code e)) = parseDecimal (strconv_Itoa (code e'))"
    by (rule arg_cong)
  then show ?thesis by (simp only: parseDecimal_Itoa)
qed

lemma mergeHeaders_appends:
  assumes "trailers k = Some [v]"
  shows "mergeHeaders h trailers k = Some ((case h k of None \<Rightarrow> [] | Some old \<Rightarrow> old) @ [v])"
  using assms by (simp add: mergeHeaders_def)

text \<open>
  Claim C7. For every request classified as gRPC, ErrorWriter.Write returns nil after
  it sets the echoed Content-Type and announces the trailer keys in a Trailer header
  (every key of the trailer map, the status and the message key among them, joined by
  commas in the order the map yields them), writes HTTP status 200 OK with exactly
  those headers, writes no body, and then puts the error's status (its code in decimal,
  under Grpc-Status) and the error's message (under Grpc-Message) into the header map,
  after whatever values the two names had there, where they are sent as HTTP trailers.
  For every request whose protocol is unknown, Write leaves the response writer as it
  was and returns nil.
\<close>

theorem C7_write:
  fixes response :: ResponseWriter and e :: "'d Error"
  shows
  "(classifyRequest canon w request = grpcProtocol \<longrightarrow>
      (let ctype = canon (getHeaderCanonical (Header request) ''Content-Type'');
           trailers = grpcErrorToTrailer errorText Map.empty (protobuf w) e;
           sent = (response_Header response)
                    (''Content-Type'' \<mapsto> [ctype],
                     ''Trailer'' \<mapsto> [strings_Join (rangeKeys trailers) '','']);
           result = Write canon errorText rangeKeys w response request e
       in snd result = (None :: 'werr option)
          \<and> response_WriteHeader (fst result) = response_WriteHeader response @ [(200, sent)]
          \<and> response_Body (fst result) = response_Body response
          \<and> response_Header (fst result) = mergeHeaders sent trailers
          \<and> response_Header (fst result) ''Grpc-Status''
              = Some ((case response_Header response ''Grpc-Status'' of
                         None \<Rightarrow> [] | Some old \<Rightarrow> old) @ [strconv_Itoa (code e)])
          \<and> response_Header (fst result) ''Grpc-Message''
              = Some ((case response_Header response ''Grpc-Message'' of
                         None \<Rightarrow> [] | Some old \<Rightarrow> old) @ [errorText (err e)])
          \<and> (set (rangeKeys trailers) = dom trailers \<longrightarrow>
                (\<exists>keys. set keys = dom trailers
                        \<and> ''Grpc-Status'' \<in> set keys \<and> ''Grpc-Message'' \<in> set keys
                        \<and> sent ''Trailer'' = Some [strings_Join keys '','']))))
   \<and> (classifyRequest canon w request = unknownProtocol \<longrightarrow>
        Write canon errorText rangeKeys w response request e
          = (response, (None :: 'werr option)))"
proof (intro conjI impI)
  assume g: "classifyRequest canon w request = grpcProtocol"
  let ?trailers = "grpcErrorToTrailer errorText Map.empty (protobuf w) e"
  let ?sent = "(response_Header response)
                 (''Content-Type'' \<mapsto> [canon (getHeaderCanonical (Header request) ''Content-Type'')],
                  ''Trailer'' \<mapsto> [strings_Join (rangeKeys ?trailers) '',''])"
  have w: "Write canon errorText rangeKeys w response request e
             = (\<lparr>response_Header = mergeHeaders ?sent ?trailers,
                 response_WriteHeader = response_WriteHeader response @ [(200, ?sent)],
                 response_Body = response_Body response\<rparr>, (None :: 'werr option))"
    using g
    by (simp add: Write_def writeGRPC_def WriteHeader_def setHeaderCanonical_def Let_def
        headerContentType_def headerTrailer_def StatusOK_def)
  have s: "mergeHeaders ?sent ?trailers ''Grpc-Status''
             = Some ((case response_Header response ''Grpc-Status'' of
                        None \<Rightarrow> [] | Some old \<Rightarrow> old) @ [strconv_Itoa (code e)])"
    using mergeHeaders_appends [where trailers = ?trailers and k = "''Grpc-Status''"
        and v = "strconv_Itoa (code e)" and h = ?sent]
    by (simp add: grpcErrorToTrailer_status)
  have m: "mergeHeaders ?sent ?trailers ''Grpc-Message''
             = Some ((case response_Header response ''Grpc-Message'' of
                        None \<Rightarrow> [] | Some old \<Rightarrow> old) @ [errorText (err e)])"
    using mergeHeaders_appends [where trailers = ?trailers and k = "''Grpc-Message''"
        and v = "errorText (err e)" and h = ?sent]
    by (simp add: grpcErrorToTrailer_message)
  have k: "set (rangeKeys ?trailers) = dom ?trailers \<Longrightarrow>
             \<exists>keys. set keys = dom ?trailers
                   \<and> ''Grpc-Status'' \<in> set keys \<and> ''Grpc-Message'' \<in> set keys
                   \<and> ?sent ''Trailer'' = Some [strings_Join keys '','']"
  proof -
    assume r: "set (rangeKeys ?trailers) = dom ?trailers"
    have "''Grpc-Status'' \<in> set (rangeKeys ?trailers)"
      and "''Grpc-Message'' \<in> set (rangeKeys ?trailers)"
      unfolding r grpcErrorToTrailer_dom by simp_all
    with r show ?thesis by (intro exI [of _ "rangeKeys ?trailers"]) simp
  qed
  show "let ctype = canon (getHeaderCanonical (Header request) ''Content-Type'');
            trailers = grpcErrorToTrailer errorText Map.empty (protobuf w) e;
            sent = (response_Header response)
                    (''Content-Type'' \<mapsto> [ctype],
                     ''Trailer'' \<mapsto> [strings_Join (rangeKeys trailers) '','']);
            result = Write canon errorText rangeKeys w response request e
        in snd result = (None :: 'werr option)
          \<and> response_WriteHeader (fst result) = response_WriteHeader response @ [(200, sent)]
          \<and> response_Body (fst result) = response_Body response
          \<and> response_Header (fst result) = mergeHeaders sent trailers
          \<and> response_Header (fst result) ''Grpc-Status''
              = Some ((case response_Header response ''Grpc-Status'' of
                         None \<Rightarrow> [] | Some old \<Rightarrow> old) @ [strconv_Itoa (code e)])
          \<and> response_Header (fst result) ''Grpc-Message''
              = Some ((case response_Header response ''Grpc-Message'' of
                         None \<Rightarrow> [] | Some old \<Rightarrow> old) @ [errorText (err e)])
          \<and> (set (rangeKeys trailers) = dom trailers \<longrightarrow>
                (\<exists>keys. set keys = dom trailers
                        \<and> ''Grpc-Status'' \<in> set keys \<and> ''Grpc-Message'' \<in> set keys
                        \<and> sent ''Trailer'' = Some [strings_Join keys '','']))"
    unfolding Let_def w fst_conv snd_conv
    using s m k by simp
next
  assume "classifyRequest canon w request = unknownProtocol"
  then show "Write canon errorText rangeKeys w response request e
          = (response, (None :: 'werr option))"
    by (simp add: Write_def)
qed

theorem C7_write_witness:
  "classifyRequest (\<lambda>s. s) exampleWriter
      \<lparr>Method = ''POST'', Header = [''Content-Type'' \<mapsto> [''application/grpc+unknowncodec'']]\<rparr>
     = grpcProtocol
   \<and> map fst (response_WriteHeader (fst
        (Write (\<lambda>s. s) exampleErrorText (\<lambda>t. [''Grpc-Status'', ''Grpc-Message''])
           exampleWriter emptyResponse
           \<lparr>Method = ''POST'', Header = [''Content-Type'' \<mapsto> [''application/grpc+unknowncodec'']]\<rparr>
           (NewError CodeInternal (errorsNew ''boom'') :: unit Error)
         :: ResponseWriter \<times> unit option))) = [200]
   \<and> map (\<lambda>x. snd x ''Trailer'') (response_WriteHeader (fst
        (Write (\<lambda>s. s) exampleErrorText (\<lambda>t. [''Grpc-Status'', ''Grpc-Message''])
           exampleWriter emptyResponse
           \<lparr>Method = ''POST'', Header = [''Content-Type'' \<mapsto> [''application/grpc+unknowncodec'']]\<rparr>
           (NewError CodeInternal (errorsNew ''boom'') :: unit Error)
         :: ResponseWriter \<times> unit option))) = [Some [''Grpc-Status,Grpc-Message'']]
   \<and> map (\<lambda>x. snd x ''Content-Type'') (response_WriteHeader (fst
        (Write (\<lambda>s. s) exampleErrorText (\<lambda>t. [''Grpc-Status'', ''Grpc-Message''])
           exampleWriter emptyResponse
           \<lparr>Method = ''POST'', Header = [''Content-Type'' \<mapsto> [''application/grpc+unknowncodec'']]\<rparr>
           (NewError CodeInternal (errorsNew ''boom'') :: unit Error)
         :: ResponseWriter \<times> unit option)))
       = [Some [''application/grpc+unknowncodec'']]
   \<and> map (\<lambda>x. snd x ''Grpc-Status'') (response_WriteHeader (fst
        (Write (\<lambda>s. s) exampleErrorText (\<lambda>t. [''Grpc-Status'', ''Grpc-Message''])
           exampleWriter emptyResponse
           \<lparr>Method = ''POST'', Header = [''Content-Type'' \<mapsto> [''application/grpc+unknowncodec'']]\<rparr>
           (NewError CodeInternal (errorsNew ''boom'') :: unit Error)
         :: ResponseWriter \<times> unit option))) = [None]
   \<and> response_Header (fst
        (Write (\<lambda>s. s) exampleErrorText (\<lambda>t. [''Grpc-Status'', ''Grpc-Message''])
           exampleWriter emptyResponse
           \<lparr>Method = ''POST'', Header = [''Content-Type'' \<mapsto> [''application/grpc+unknowncodec'']]\<rparr>
           (NewError CodeInternal (errorsNew ''boom'') :: unit Error)
         :: ResponseWriter \<times> unit option)) ''Grpc-Status'' = Some [''13'']
   \<and> response_Header (fst
        (Write (\<lambda>s. s) exampleErrorText (\<lambda>t. [''Grpc-Status'', ''Grpc-Message''])
           exampleWriter emptyResponse
           \<lparr>Method = ''POST'', Header = [''Content-Type'' \<mapsto> [''application/grpc+unknowncodec'']]\<rparr>
           (NewError CodeInternal (errorsNew ''boom'') :: unit Error)
         :: ResponseWriter \<times> unit option)) ''Grpc-Message'' = Some [''boom'']
   \<and> classifyRequest (\<lambda>s. s) exampleWriter
      \<lparr>Method = ''GET'', Header = [''Content-Type'' \<mapsto> [''text/html'']]\<rparr> = unknownProtocol
   \<and> (Write (\<lambda>s. s) exampleErrorText (\<lambda>t. [''Grpc-Status'', ''Grpc-Message''])
         exampleWriter emptyResponse
         \<lparr>Method = ''GET'', Header = [''Content-Type'' \<mapsto> [''text/html'']]\<rparr>
         (NewError CodeInternal (errorsNew ''boom'') :: unit Error)
       :: ResponseWriter \<times> unit option) = (emptyResponse, None)"
proof -
  let ?post = "\<lparr>Method = ''POST'',
                Header = [''Content-Type'' \<mapsto> [''application/grpc+unknowncodec'']]\<rparr>"
  let ?get = "\<lparr>Method = ''GET'', Header = [''Content-Type'' \<mapsto> [''text/html'']]\<rparr>"
  let ?keys = "\<lambda>t :: Header. [''Grpc-Status'', ''Grpc-Message'']"
  let ?e = "NewError CodeInternal (errorsNew ''boom'') :: unit Error"
  have g: "classifyRequest (\<lambda>s. s) exampleWriter ?post = grpcProtocol"
    by (simp add: classifyRequest_def Let_def MethodPost_def grpcContentTypeDefault_def
        grpcContentTypePrefix_def headerContentType_def strings_HasPrefix_def
        getHeaderCanonical_def)
  have u: "classifyRequest (\<lambda>s. s) exampleWriter ?get = unknownProtocol"
    by (simp add: classifyRequest_def Let_def MethodPost_def)
  have ct: "getHeaderCanonical (Header ?post) ''Content-Type''
              = ''application/grpc+unknowncodec''"
    by (simp add: getHeaderCanonical_def)
  have c13: "strconv_Itoa (code ?e) = ''13''"
    by (simp add: NewError_def CodeInternal_def digit_def strconv_Itoa.simps)
  have msg: "exampleErrorText (err ?e) = ''boom''"
    by (simp add: NewError_def exampleErrorText_def)
  note a = C7_write [where canon = "\<lambda>s. s" and w = exampleWriter and request = ?post
      and errorText = exampleErrorText and e = ?e and response = emptyResponse
      and rangeKeys = ?keys and ?'werr = unit,
      THEN conjunct1, rule_format, OF g, unfolded Let_def ct c13 msg]
  note b = C7_write [where canon = "\<lambda>s. s" and w = exampleWriter and request = ?get
      and errorText = exampleErrorText and e = ?e and response = emptyResponse
      and rangeKeys = ?keys and ?'werr = unit,
      THEN conjunct2, rule_format, OF u]
  note a_status = a [THEN conjunct2, THEN conjunct1]
  note a_code = a [THEN conjunct2, THEN conjunct2, THEN conjunct2, THEN conjunct2,
      THEN conjunct1]
  note a_message = a [THEN conjunct2, THEN conjunct2, THEN conjunct2, THEN conjunct2,
      THEN conjunct2, THEN conjunct1]
  from a_status have a2: "response_WriteHeader (fst
        (Write (\<lambda>s. s) exampleErrorText ?keys exampleWriter emptyResponse ?post ?e
           :: ResponseWriter \<times> unit option))
       = [(200, [''Content-Type'' \<mapsto> [''application/grpc+unknowncodec''],
                 ''Trailer'' \<mapsto> [''Grpc-Status,Grpc-Message'']])]"
    by (simp add: emptyResponse_def)
  from a_code have a3: "response_Header (fst
        (Write (\<lambda>s. s) exampleErrorText ?keys exampleWriter emptyResponse ?post ?e
           :: ResponseWriter \<times> unit option)) ''Grpc-Status'' = Some [''13'']"
    by (simp add: emptyResponse_def)
  from a_message have a4: "response_Header (fst
        (Write (\<lambda>s. s) exampleErrorText ?keys exampleWriter emptyResponse ?post ?e
           :: ResponseWriter \<times> unit option)) ''Grpc-Message'' = Some [''boom'']"
    by (simp add: emptyResponse_def)
  show ?thesis
    using g u b a3 a4 by (simp add: a2)
qed

end
